theory Spec2Isabelle
  imports Main "HOL-Library.Word" "HOL-Library.Product_Lexorder" "HOL-Library.List_Lexorder"
    "HOL-Library.Multiset"
begin

section \<open>Python values: errors, sequences, bytes\<close>

text \<open>
  Every exception the two modules can raise is a value of \<open>error\<close>; a fallible
  operation returns \<open>error + 'a\<close> with \<open>Inl\<close> for the raised exception.
  \<open>StructError\<close> is \<open>struct.error\<close>, \<open>UnicodeError\<close> stands for both
  \<open>UnicodeEncodeError\<close> and \<open>UnicodeDecodeError\<close>.
\<close>

datatype error = KeyError | IndexError | TypeError | AttributeError | StructError
  | UnicodeError | ValueError

definition bind_err :: "error + 'a \<Rightarrow> ('a \<Rightarrow> error + 'b) \<Rightarrow> error + 'b" where
  "bind_err m f = (case m of Inl e \<Rightarrow> Inl e | Inr x \<Rightarrow> f x)"

fun map_err :: "('a \<Rightarrow> error + 'b) \<Rightarrow> 'a list \<Rightarrow> error + 'b list" where
  "map_err f [] = Inr []"
| "map_err f (x # xs) = bind_err (f x) (\<lambda>y. bind_err (map_err f xs) (\<lambda>ys. Inr (y # ys)))"

text \<open>Python indexing \<open>xs[i]\<close> and slicing \<open>xs[i:]\<close>, \<open>xs[:j]\<close>, \<open>xs[i:j]\<close>:
  a negative index counts from the end, a slice bound is clamped to the sequence.\<close>

definition py_index :: "'a list \<Rightarrow> int \<Rightarrow> error + 'a" where
  "py_index xs i =
     (if 0 \<le> i \<and> i < int (length xs) then Inr (xs ! nat i)
      else if i < 0 \<and> - int (length xs) \<le> i then Inr (xs ! nat (int (length xs) + i))
      else Inl IndexError)"

definition slice_bound :: "'a list \<Rightarrow> int \<Rightarrow> nat" where
  "slice_bound xs i =
     (if i < 0 then nat (max 0 (int (length xs) + i)) else min (nat i) (length xs))"

definition slice_to :: "'a list \<Rightarrow> int \<Rightarrow> 'a list" where
  "slice_to xs j = take (slice_bound xs j) xs"

definition slice_from :: "'a list \<Rightarrow> int \<Rightarrow> 'a list" where
  "slice_from xs i = drop (slice_bound xs i) xs"

definition slice :: "'a list \<Rightarrow> int \<Rightarrow> int \<Rightarrow> 'a list" where
  "slice xs i j = drop (slice_bound xs i) (take (slice_bound xs j) xs)"

type_synonym byte = "8 word"
type_synonym bytes = "byte list"

subsection \<open>The \<open>struct\<close> module, big-endian\<close>

fun be_bytes :: "nat \<Rightarrow> int \<Rightarrow> bytes" where
  "be_bytes 0 n = []"
| "be_bytes (Suc k) n = be_bytes k (n div 256) @ [word_of_int n]"

definition be_int :: "bytes \<Rightarrow> int" where
  "be_int bs = foldl (\<lambda>acc b. acc * 256 + uint b) 0 bs"

text \<open>\<open>struct.pack(">H", n)\<close> and \<open>struct.pack(">I", n)\<close> raise \<open>struct.error\<close>
  when \<open>n\<close> is negative or does not fit.\<close>

definition pack_uint :: "nat \<Rightarrow> int \<Rightarrow> error + bytes" where
  "pack_uint k n = (if 0 \<le> n \<and> n < 256 ^ k then Inr (be_bytes k n) else Inl StructError)"

definition pack_u16 :: "int \<Rightarrow> error + bytes" where
  "pack_u16 = pack_uint 2"

definition pack_u32 :: "int \<Rightarrow> error + bytes" where
  "pack_u32 = pack_uint 4"

text \<open>The format \<open>4s\<close> truncates a longer byte string and pads a shorter one with zero bytes.\<close>

definition pack_4s :: "bytes \<Rightarrow> bytes" where
  "pack_4s bs = take 4 (bs @ replicate 4 0)"

text \<open>\<open>str.encode("ascii")\<close> and \<open>bytes.decode("ascii")\<close>: both raise on a value above 127.
  The strings of the type tags and names are modelled as \<open>string\<close>.\<close>

definition encode_ascii :: "string \<Rightarrow> error + bytes" where
  "encode_ascii s =
     (if \<forall>c \<in> set s. (of_char c :: nat) < 128 then Inr (map (\<lambda>c. of_nat (of_char c)) s)
      else Inl UnicodeError)"

definition decode_ascii :: "bytes \<Rightarrow> error + string" where
  "decode_ascii bs =
     (if \<forall>b \<in> set bs. unat b < 128 then Inr (map (\<lambda>b. char_of (unat b)) bs)
      else Inl UnicodeError)"

text \<open>Modelled from the spec: the module \<open>util\<close> (\<open>pack_int\<close>, \<open>unpack_int\<close>,
  \<open>pack_ascii\<close>, \<open>unpack_ascii\<close>) is not among the sources. Section 6 of the
  specification fixes every integer of the directory as a big-endian \<open>u32\<close> and every tag and
  name as ASCII bytes, which is what \<open>strg.py\<close> writes inline with \<open>struct\<close> and
  \<open>encode("ascii")\<close>.\<close>

definition pack_int :: "int \<Rightarrow> error + bytes" where
  "pack_int n = pack_u32 n"

definition unpack_int :: "bytes \<Rightarrow> error + int" where
  "unpack_int bs = (if length bs = 4 then Inr (be_int bs) else Inl StructError)"

definition pack_ascii :: "string \<Rightarrow> error + bytes" where
  "pack_ascii s = encode_ascii s"

definition unpack_ascii :: "bytes \<Rightarrow> error + string" where
  "unpack_ascii bs = decode_ascii bs"

section \<open>strg.py\<close>

text \<open>
  Each frozen dataclass is a record; the fields keep the source's names behind a prefix
  for the class (\<open>lt_\<close> STRGLanguageTable, \<open>ne_\<close> STRGNameEntry, \<open>nt_\<close> STRGNameTable,
  \<open>st_\<close> STRGStringTable, \<open>strg_\<close> STRG), since several classes share field names.
  Python's unbounded integers are \<open>int\<close>. A string of a string table is the list of its
  Unicode code points.
\<close>

type_synonym ustring = "int list"

subsection \<open>UTF-16, big-endian\<close>

text \<open>\<open>str.encode("utf-16_be")\<close>: two bytes for a code point of the basic plane, a
  surrogate pair above it; a lone surrogate cannot be encoded.\<close>

definition utf16_char :: "int \<Rightarrow> error + bytes" where
  "utf16_char c =
     (if (0 \<le> c \<and> c < 0xD800) \<or> (0xE000 \<le> c \<and> c < 0x10000) then Inr (be_bytes 2 c)
      else if 0x10000 \<le> c \<and> c < 0x110000 then
        Inr (be_bytes 2 (0xD800 + (c - 0x10000) div 0x400)
             @ be_bytes 2 (0xDC00 + (c - 0x10000) mod 0x400))
      else Inl UnicodeError)"

definition encode_utf16_be :: "ustring \<Rightarrow> error + bytes" where
  "encode_utf16_be s = bind_err (map_err utf16_char s) (\<lambda>cs. Inr (concat cs))"

text \<open>\<open>bytes.decode("utf-16_be")\<close>: raises on an odd number of bytes and on a surrogate
  that is not the first half of a well-formed pair.\<close>

fun decode_utf16_be :: "bytes \<Rightarrow> error + ustring" where
  "decode_utf16_be [] = Inr []"
| "decode_utf16_be [b] = Inl UnicodeError"
| "decode_utf16_be (b0 # b1 # rest) =
     (let u = be_int [b0, b1] in
      if u < 0xD800 \<or> 0xE000 \<le> u then
        bind_err (decode_utf16_be rest) (\<lambda>r. Inr (u # r))
      else if u < 0xDC00 then
        (case rest of
           b2 # b3 # rest' \<Rightarrow>
             (let l = be_int [b2, b3] in
              if 0xDC00 \<le> l \<and> l < 0xE000 then
                bind_err (decode_utf16_be rest')
                  (\<lambda>r. Inr ((0x10000 + (u - 0xD800) * 0x400 + (l - 0xDC00)) # r))
              else Inl UnicodeError)
         | _ \<Rightarrow> Inl UnicodeError)
      else Inl UnicodeError)"

text \<open>\<open>haystack.index(sub)\<close>: the first position where \<open>sub\<close> occurs, \<open>ValueError\<close>
  when it does not occur.\<close>

fun bytes_index :: "bytes \<Rightarrow> bytes \<Rightarrow> error + int" where
  "bytes_index [] sub = (if sub = [] then Inr 0 else Inl ValueError)"
| "bytes_index (b # bs) sub =
     (if take (length sub) (b # bs) = sub then Inr 0
      else bind_err (bytes_index bs sub) (\<lambda>i. Inr (i + 1)))"

text \<open>The loops \<open>for i in range(n): xs.append(C.from_packed(packed[offset:offset+w]));
  offset += w\<close> of the decoders, for a record class of fixed width \<open>w\<close>.\<close>

fun read_records :: "(bytes \<Rightarrow> error + 'a) \<Rightarrow> int \<Rightarrow> bytes \<Rightarrow> int \<Rightarrow> nat \<Rightarrow> error + 'a list" where
  "read_records from_packed w packed offset 0 = Inr []"
| "read_records from_packed w packed offset (Suc n) =
     bind_err (from_packed (slice packed offset (offset + w)))
       (\<lambda>x. bind_err (read_records from_packed w packed (offset + w) n) (\<lambda>xs. Inr (x # xs)))"

subsection \<open>STRGLanguageTable\<close>

record STRGLanguageTable =
  lt_language_ID :: string
  lt_strings_offset :: int
  lt_strings_size :: int

definition STRGLanguageTable_from_packed :: "bytes \<Rightarrow> error + STRGLanguageTable" where
  "STRGLanguageTable_from_packed packed =
     (if length packed \<noteq> 12 then Inl StructError
      else bind_err (decode_ascii (take 4 packed))
        (\<lambda>language_ID. Inr \<lparr>lt_language_ID = language_ID,
                             lt_strings_offset = be_int (take 4 (drop 4 packed)),
                             lt_strings_size = be_int (take 4 (drop 8 packed))\<rparr>))"

definition STRGLanguageTable_packed :: "STRGLanguageTable \<Rightarrow> error + bytes" where
  "STRGLanguageTable_packed t =
     bind_err (encode_ascii (lt_language_ID t))
       (\<lambda>language_ID_bytes. bind_err (pack_u32 (lt_strings_offset t))
         (\<lambda>strings_offset. bind_err (pack_u32 (lt_strings_size t))
           (\<lambda>strings_size. Inr (pack_4s language_ID_bytes @ strings_offset @ strings_size))))"

definition STRGLanguageTable_packed_size :: "STRGLanguageTable \<Rightarrow> error + int" where
  "STRGLanguageTable_packed_size t =
     bind_err (STRGLanguageTable_packed t) (\<lambda>b. Inr (int (length b)))"

subsection \<open>STRGNameEntry and STRGNameTable\<close>

record STRGNameEntry =
  ne_offset :: int
  ne_string_index :: int

definition STRGNameEntry_from_packed :: "bytes \<Rightarrow> error + STRGNameEntry" where
  "STRGNameEntry_from_packed packed =
     (if length packed \<noteq> 8 then Inl StructError
      else Inr \<lparr>ne_offset = be_int (take 4 packed),
                ne_string_index = be_int (take 4 (drop 4 packed))\<rparr>)"

definition STRGNameEntry_packed :: "STRGNameEntry \<Rightarrow> error + bytes" where
  "STRGNameEntry_packed e =
     bind_err (pack_u32 (ne_offset e))
       (\<lambda>offset. bind_err (pack_u32 (ne_string_index e))
         (\<lambda>string_index. Inr (offset @ string_index)))"

definition STRGNameEntry_packed_size :: "STRGNameEntry \<Rightarrow> error + int" where
  "STRGNameEntry_packed_size e = bind_err (STRGNameEntry_packed e) (\<lambda>b. Inr (int (length b)))"

record STRGNameTable =
  nt_count :: int
  nt_size :: int
  nt_entries :: "STRGNameEntry list"
  nt_names :: "string list"

text \<open>One pass of the loop over the entries: \<open>offset = 8 + entry.offset\<close>, the name runs
  up to the first zero byte, \<open>struct.unpack(f"{name_length}sx", ...)\<close> takes it.\<close>

definition read_name :: "bytes \<Rightarrow> STRGNameEntry \<Rightarrow> error + string" where
  "read_name packed entry =
     (let offset = 8 + ne_offset entry in
      bind_err (bytes_index (slice_from packed offset) [0])
        (\<lambda>name_length.
           let chunk = slice packed offset (offset + name_length + 1) in
           if int (length chunk) \<noteq> name_length + 1 then Inl StructError
           else decode_ascii (take (nat name_length) chunk)))"

definition STRGNameTable_from_packed :: "bytes \<Rightarrow> error + STRGNameTable" where
  "STRGNameTable_from_packed packed =
     (let header = slice_to packed 8 in
      if length header \<noteq> 8 then Inl StructError
      else
        let count = be_int (take 4 header); size = be_int (take 4 (drop 4 header)) in
        bind_err (read_records STRGNameEntry_from_packed 8 packed 8 (nat count))
          (\<lambda>entries. bind_err (map_err (read_name packed) entries)
            (\<lambda>names. Inr \<lparr>nt_count = count, nt_size = size,
                            nt_entries = entries, nt_names = names\<rparr>)))"

definition STRGNameTable_packed :: "STRGNameTable \<Rightarrow> error + bytes" where
  "STRGNameTable_packed t =
     bind_err (pack_u32 (nt_count t))
       (\<lambda>count. bind_err (pack_u32 (nt_size t))
         (\<lambda>size. bind_err (map_err STRGNameEntry_packed (nt_entries t))
           (\<lambda>entries. bind_err (map_err (\<lambda>name. bind_err (encode_ascii name) (\<lambda>b. Inr (b @ [0])))
                                   (nt_names t))
             (\<lambda>names. Inr (count @ size @ concat entries @ concat names)))))"

definition STRGNameTable_packed_size :: "STRGNameTable \<Rightarrow> error + int" where
  "STRGNameTable_packed_size t = bind_err (STRGNameTable_packed t) (\<lambda>b. Inr (int (length b)))"

text \<open>\<open>self.entries[self.names.index(name)].string_index\<close>\<close>

fun list_index :: "'a list \<Rightarrow> 'a \<Rightarrow> error + int" where
  "list_index [] x = Inl ValueError"
| "list_index (y # ys) x = (if y = x then Inr 0 else bind_err (list_index ys x) (\<lambda>i. Inr (i + 1)))"

definition get_string_index_for_name :: "STRGNameTable \<Rightarrow> string \<Rightarrow> error + int" where
  "get_string_index_for_name t name =
     bind_err (list_index (nt_names t) name)
       (\<lambda>i. bind_err (py_index (nt_entries t) i) (\<lambda>e. Inr (ne_string_index e)))"

subsection \<open>STRGStringTable\<close>

record STRGStringTable =
  st_count :: int
  st_offsets :: "int list"
  st_strings :: "ustring list"

text \<open>\<open>struct.unpack(f">{n}I", b)\<close> and \<open>struct.pack(f">{n}I", *xs)\<close>: a negative \<open>n\<close>
  is not a format, the buffer must have \<open>4 * n\<close> bytes, the arguments must be \<open>n\<close>.\<close>

fun chunks4 :: "nat \<Rightarrow> bytes \<Rightarrow> bytes list" where
  "chunks4 0 bs = []"
| "chunks4 (Suc n) bs = take 4 bs # chunks4 n (drop 4 bs)"

definition unpack_u32s :: "int \<Rightarrow> bytes \<Rightarrow> error + int list" where
  "unpack_u32s n bs =
     (if n < 0 \<or> int (length bs) \<noteq> 4 * n then Inl StructError
      else Inr (map be_int (chunks4 (nat n) bs)))"

definition pack_u32s :: "int \<Rightarrow> int list \<Rightarrow> error + bytes" where
  "pack_u32s n xs =
     (if n < 0 \<or> int (length xs) \<noteq> n then Inl StructError
      else bind_err (map_err pack_u32 xs) (\<lambda>bs. Inr (concat bs)))"

text \<open>One pass of the loop over the offsets: the string runs up to the first two
  consecutive zero bytes found from \<open>offset\<close>, at any alignment.\<close>

definition read_string :: "bytes \<Rightarrow> int \<Rightarrow> error + ustring" where
  "read_string packed offset =
     bind_err (bytes_index (slice_from packed offset) [0, 0])
       (\<lambda>string_length.
          let chunk = slice packed offset (offset + string_length + 2) in
          if int (length chunk) \<noteq> string_length + 2 then Inl StructError
          else decode_utf16_be (take (nat string_length) chunk))"

definition STRGStringTable_from_packed :: "bytes \<Rightarrow> int \<Rightarrow> error + STRGStringTable" where
  "STRGStringTable_from_packed packed string_count =
     bind_err (unpack_u32s string_count (slice_to packed (4 * string_count)))
       (\<lambda>string_offsets. bind_err (map_err (read_string packed) string_offsets)
         (\<lambda>strings. Inr \<lparr>st_count = string_count, st_offsets = string_offsets,
                          st_strings = strings\<rparr>))"

text \<open>The strings are written in the order of \<open>sorted(zip(self.offsets, self.strings))\<close>:
  by offset, then by string; \<open>zip\<close> stops at the shorter sequence.\<close>

definition STRGStringTable_packed :: "STRGStringTable \<Rightarrow> error + bytes" where
  "STRGStringTable_packed t =
     bind_err (pack_u32s (st_count t) (st_offsets t))
       (\<lambda>offsets. bind_err
          (map_err (\<lambda>(_, string). bind_err (encode_utf16_be string) (\<lambda>b. Inr (b @ [0, 0])))
             (sort (zip (st_offsets t) (st_strings t))))
          (\<lambda>strings. Inr (offsets @ concat strings)))"

definition STRGStringTable_packed_size :: "STRGStringTable \<Rightarrow> error + int" where
  "STRGStringTable_packed_size t =
     bind_err (STRGStringTable_packed t) (\<lambda>b. Inr (int (length b)))"

definition with_string_replaced :: "STRGStringTable \<Rightarrow> int \<Rightarrow> ustring \<Rightarrow> error + STRGStringTable" where
  "with_string_replaced t index new_string =
     bind_err (encode_utf16_be new_string)
       (\<lambda>new_bytes. bind_err (py_index (st_strings t) index)
         (\<lambda>old_string. bind_err (encode_utf16_be old_string)
           (\<lambda>old_bytes.
              let size_diff = int (length new_bytes) - int (length old_bytes);
                  new_offsets = slice_to (st_offsets t) (index + 1)
                                @ map (\<lambda>offset. offset + size_diff)
                                    (slice_from (st_offsets t) (index + 1))
              in Inr (t\<lparr>st_offsets := new_offsets,
                        st_strings := slice_to (st_strings t) index @ [new_string]
                                      @ slice_from (st_strings t) (index + 1)\<rparr>))))"

subsection \<open>STRG\<close>

record STRG =
  strg_magic_number :: int
  strg_version :: int
  strg_language_count :: int
  strg_string_count :: int
  strg_language_tables :: "STRGLanguageTable list"
  strg_name_table :: STRGNameTable
  strg_string_tables :: "STRGStringTable list"

text \<open>\<open>__post_init__\<close>: the map from language tag to index is rebuilt from the language
  tables of every instance; a tag that occurs twice keeps its last index.\<close>

definition language_ID_to_index_map :: "STRG \<Rightarrow> (string \<rightharpoonup> nat)" where
  "language_ID_to_index_map s =
     fold (\<lambda>(index, language_table) m. m(lt_language_ID language_table \<mapsto> index))
       (enumerate 0 (strg_language_tables s)) Map.empty"

definition STRG_from_packed :: "bytes \<Rightarrow> error + STRG" where
  "STRG_from_packed packed =
     (let header = slice_to packed 16 in
      if length header \<noteq> 16 then Inl StructError
      else
        let magic_number = be_int (take 4 header);
            version = be_int (take 4 (drop 4 header));
            language_count = be_int (take 4 (drop 8 header));
            string_count = be_int (take 4 (drop 12 header))
        in
        bind_err (read_records STRGLanguageTable_from_packed 12 packed 16 (nat language_count))
          (\<lambda>language_tables.
             let offset = 16 + 12 * language_count in
             bind_err (STRGNameTable_from_packed (slice_from packed offset))
               (\<lambda>name_table.
                  let string_tables_offset = offset + 8 + nt_size name_table in
                  bind_err
                    (map_err (\<lambda>language_table.
                        let offset = string_tables_offset + lt_strings_offset language_table;
                            size = lt_strings_size language_table
                        in STRGStringTable_from_packed (slice packed offset (offset + size))
                             string_count)
                      language_tables)
                    (\<lambda>string_tables.
                       Inr \<lparr>strg_magic_number = magic_number, strg_version = version,
                            strg_language_count = language_count,
                            strg_string_count = string_count,
                            strg_language_tables = language_tables,
                            strg_name_table = name_table,
                            strg_string_tables = string_tables\<rparr>))))"

definition STRG_packed_content_size :: "STRG \<Rightarrow> error + int" where
  "STRG_packed_content_size s =
     bind_err (map_err STRGLanguageTable_packed_size (strg_language_tables s))
       (\<lambda>language_tables_sizes.
          bind_err (map_err STRGStringTable_packed_size (strg_string_tables s))
            (\<lambda>string_tables_sizes.
               bind_err (STRGNameTable_packed_size (strg_name_table s))
                 (\<lambda>name_table_size.
                    Inr (4 + 4 + 4 + 4 + sum_list language_tables_sizes + name_table_size
                         + sum_list string_tables_sizes))))"

definition STRG_packed_padding_size :: "STRG \<Rightarrow> error + int" where
  "STRG_packed_padding_size s =
     bind_err (STRG_packed_content_size s) (\<lambda>n. Inr ((32 - (n mod 32)) mod 32))"

definition STRG_packed_size :: "STRG \<Rightarrow> error + int" where
  "STRG_packed_size s =
     bind_err (STRG_packed_content_size s)
       (\<lambda>content. bind_err (STRG_packed_padding_size s) (\<lambda>padding. Inr (content + padding)))"

definition STRG_packed :: "STRG \<Rightarrow> error + bytes" where
  "STRG_packed s =
     bind_err (pack_u32 (strg_magic_number s))
       (\<lambda>magic_number. bind_err (pack_u32 (strg_version s))
         (\<lambda>version. bind_err (pack_u32 (strg_language_count s))
           (\<lambda>language_count. bind_err (pack_u32 (strg_string_count s))
             (\<lambda>string_count.
                bind_err (map_err STRGLanguageTable_packed (strg_language_tables s))
                  (\<lambda>language_tables. bind_err (STRGNameTable_packed (strg_name_table s))
                    (\<lambda>name_table.
                       bind_err (map_err STRGStringTable_packed (strg_string_tables s))
                         (\<lambda>string_tables. bind_err (STRG_packed_padding_size s)
                           (\<lambda>padding.
                              Inr (magic_number @ version @ language_count @ string_count
                                   @ concat language_tables @ name_table
                                   @ concat string_tables
                                   @ replicate (nat padding) 0xFF)))))))))"

definition get_string_table_by_language_ID :: "STRG \<Rightarrow> string \<Rightarrow> error + STRGStringTable" where
  "get_string_table_by_language_ID s language_ID =
     (case language_ID_to_index_map s language_ID of
        None \<Rightarrow> Inl KeyError
      | Some index \<Rightarrow> py_index (strg_string_tables s) (int index))"

definition with_string_table_replaced :: "STRG \<Rightarrow> string \<Rightarrow> STRGStringTable \<Rightarrow> error + STRG" where
  "with_string_table_replaced s language_ID new_string_table =
     (case language_ID_to_index_map s language_ID of
        None \<Rightarrow> Inl KeyError
      | Some index \<Rightarrow>
          let table_index = int index in
          bind_err (py_index (strg_language_tables s) table_index)
            (\<lambda>old_language_table.
               bind_err (STRGStringTable_packed_size new_string_table)
                 (\<lambda>new_size.
                    let new_language_table = old_language_table\<lparr>lt_strings_size := new_size\<rparr>;
                        size_diff = lt_strings_size new_language_table
                                    - lt_strings_size old_language_table;
                        new_language_tables =
                          slice_to (strg_language_tables s) table_index @ [new_language_table]
                          @ map (\<lambda>language_table.
                                   language_table\<lparr>lt_strings_offset :=
                                     lt_strings_size language_table + size_diff\<rparr>)
                              (slice_from (strg_language_tables s) (table_index + 1))
                    in Inr (s\<lparr>strg_language_tables := new_language_tables,
                              strg_string_tables :=
                                slice_to (strg_string_tables s) table_index
                                @ [new_string_table]
                                @ slice_from (strg_string_tables s) (table_index + 1)\<rparr>))))"

section \<open>pak.py\<close>

text \<open>
  Field prefixes: \<open>nrt_\<close> NamedResourceTable, \<open>rt_\<close> ResourceTable, \<open>pak_\<close> PAK.
\<close>

subsection \<open>NamedResourceTable and ResourceTable\<close>

record NamedResourceTable =
  nrt_asset_type :: string
  nrt_asset_ID :: int
  nrt_name_length :: int
  nrt_name :: string

definition NamedResourceTable_from_packed :: "bytes \<Rightarrow> error + NamedResourceTable" where
  "NamedResourceTable_from_packed packed =
     (let header = slice_to packed 12 in
      if length header \<noteq> 12 then Inl StructError
      else
        let asset_ID = be_int (take 4 (drop 4 header));
            name_length = be_int (take 4 (drop 8 header))
        in
        bind_err (unpack_ascii (take 4 header))
          (\<lambda>asset_type. bind_err (unpack_ascii (slice packed 12 (12 + name_length)))
            (\<lambda>name. Inr \<lparr>nrt_asset_type = asset_type, nrt_asset_ID = asset_ID,
                           nrt_name_length = name_length, nrt_name = name\<rparr>)))"

definition NamedResourceTable_packed :: "NamedResourceTable \<Rightarrow> error + bytes" where
  "NamedResourceTable_packed t =
     bind_err (pack_ascii (nrt_asset_type t))
       (\<lambda>asset_type. bind_err (pack_u32 (nrt_asset_ID t))
         (\<lambda>asset_ID. bind_err (pack_u32 (nrt_name_length t))
           (\<lambda>name_length. bind_err (pack_ascii (nrt_name t))
             (\<lambda>name. Inr (pack_4s asset_type @ asset_ID @ name_length @ name)))))"

definition NamedResourceTable_packed_size :: "NamedResourceTable \<Rightarrow> error + int" where
  "NamedResourceTable_packed_size t =
     bind_err (NamedResourceTable_packed t) (\<lambda>b. Inr (int (length b)))"

record ResourceTable =
  rt_compressed :: bool
  rt_asset_type :: string
  rt_asset_ID :: int
  rt_size :: int
  rt_offset :: int

definition ResourceTable_from_packed :: "bytes \<Rightarrow> error + ResourceTable" where
  "ResourceTable_from_packed packed =
     (if length packed \<noteq> 20 then Inl StructError
      else bind_err (unpack_ascii (take 4 (drop 4 packed)))
        (\<lambda>asset_type. Inr \<lparr>rt_compressed = (be_int (take 4 packed) \<noteq> 0),
                            rt_asset_type = asset_type,
                            rt_asset_ID = be_int (take 4 (drop 8 packed)),
                            rt_size = be_int (take 4 (drop 12 packed)),
                            rt_offset = be_int (take 4 (drop 16 packed))\<rparr>))"

definition ResourceTable_packed :: "ResourceTable \<Rightarrow> error + bytes" where
  "ResourceTable_packed t =
     bind_err (pack_ascii (rt_asset_type t))
       (\<lambda>asset_type. bind_err (pack_u32 (if rt_compressed t then 1 else 0))
         (\<lambda>compressed. bind_err (pack_u32 (rt_asset_ID t))
           (\<lambda>asset_ID. bind_err (pack_u32 (rt_size t))
             (\<lambda>size. bind_err (pack_u32 (rt_offset t))
               (\<lambda>offset. Inr (compressed @ pack_4s asset_type @ asset_ID @ size @ offset))))))"

definition ResourceTable_packed_size :: "ResourceTable \<Rightarrow> error + int" where
  "ResourceTable_packed_size t = bind_err (ResourceTable_packed t) (\<lambda>b. Inr (int (length b)))"

subsection \<open>Resources and asset classes\<close>

text \<open>The classes a resource entry can be decoded by: the values of \<open>PAK.asset_classes\<close>,
  \<open>ScanTree\<close>, and the default \<open>UnimplementedResource\<close>.\<close>

datatype asset_class = Class_DGRP | Class_DUMB | Class_HINT | Class_SCAN | Class_STRG
  | Class_ScanTree | Class_UnimplementedResource

text \<open>Modelled from the spec: the modules \<open>dgrp\<close>, \<open>dumb\<close>, \<open>hint\<close>, \<open>scan\<close> and
  \<open>tree\<close> are not among the sources. By the collaborator contract of section 6 an asset
  codec decodes a byte slice and its payload encodes itself and reports its encoded size;
  a payload of these classes is represented by its class and by what \<open>PAK\<close> reads of it,
  the attributes \<open>asset_type\<close> and \<open>packed_size\<close> and the method \<open>packed()\<close>, each of
  which may raise. Their decoders are a parameter \<open>ext\<close> of \<open>PAK_from_packed\<close>.\<close>

record external_resource =
  ext_class :: asset_class
  ext_asset_type :: "error + string"
  ext_packed :: "error + bytes"
  ext_packed_size :: "error + int"

datatype resource = UnimplementedResource bytes | STRG_resource STRG
  | External_resource external_resource

text \<open>\<open>UnimplementedResource\<close> has no attribute \<open>asset_type\<close>; \<open>STRG.asset_type\<close> is a
  class attribute.\<close>

definition resource_asset_type :: "resource \<Rightarrow> error + string" where
  "resource_asset_type r =
     (case r of UnimplementedResource data \<Rightarrow> Inl AttributeError
      | STRG_resource s \<Rightarrow> Inr ''STRG''
      | External_resource x \<Rightarrow> ext_asset_type x)"

definition resource_packed_size :: "resource \<Rightarrow> error + int" where
  "resource_packed_size r =
     (case r of UnimplementedResource data \<Rightarrow> Inr (int (length data))
      | STRG_resource s \<Rightarrow> STRG_packed_size s
      | External_resource x \<Rightarrow> ext_packed_size x)"

definition resource_packed :: "resource \<Rightarrow> error + bytes" where
  "resource_packed r =
     (case r of UnimplementedResource data \<Rightarrow> Inr data
      | STRG_resource s \<Rightarrow> STRG_packed s
      | External_resource x \<Rightarrow> ext_packed x)"

definition asset_classes :: "string \<rightharpoonup> asset_class" where
  "asset_classes =
     [''DGRP'' \<mapsto> Class_DGRP, ''DUMB'' \<mapsto> Class_DUMB, ''HINT'' \<mapsto> Class_HINT,
      ''SCAN'' \<mapsto> Class_SCAN, ''STRG'' \<mapsto> Class_STRG]"

text \<open>\<open>asset_class.from_packed(...)\<close> for the class chosen in \<open>PAK.from_packed\<close>.\<close>

definition class_from_packed ::
  "(asset_class \<Rightarrow> bytes \<Rightarrow> error + external_resource) \<Rightarrow> asset_class \<Rightarrow> bytes \<Rightarrow> error + resource" where
  "class_from_packed ext c packed =
     (case c of
        Class_UnimplementedResource \<Rightarrow> Inr (UnimplementedResource packed)
      | Class_STRG \<Rightarrow> bind_err (STRG_from_packed packed) (\<lambda>s. Inr (STRG_resource s))
      | _ \<Rightarrow> bind_err (ext c packed) (\<lambda>x. Inr (External_resource x)))"

definition aligned_to_32_bytes :: "bytes \<Rightarrow> bytes" where
  "aligned_to_32_bytes bytes_to_align =
     bytes_to_align
     @ replicate (nat ((32 - (int (length bytes_to_align) mod 32)) mod 32)) 0xFF"

subsection \<open>PAK\<close>

record PAK =
  pak_major_version :: int
  pak_minor_version :: int
  pak_unused :: int
  pak_named_resource_count :: int
  pak_named_resource_tables :: "NamedResourceTable list"
  pak_resource_count :: int
  pak_resource_tables :: "ResourceTable list"
  pak_resources :: "resource list"

text \<open>\<open>__post_init__\<close>: the map from asset ID to index, rebuilt for every instance; an ID
  that occurs twice keeps its last index.\<close>

definition asset_ID_to_index_map :: "PAK \<Rightarrow> (int \<rightharpoonup> nat)" where
  "asset_ID_to_index_map p =
     fold (\<lambda>(index, resource_table) m. m(rt_asset_ID resource_table \<mapsto> index))
       (enumerate 0 (pak_resource_tables p)) Map.empty"

text \<open>The loop over the named resource tables; it returns the tables and the offset
  reached, \<open>offset += 12 + table.name_length\<close> in each pass.\<close>

fun read_named_resource_tables ::
  "bytes \<Rightarrow> int \<Rightarrow> nat \<Rightarrow> error + (NamedResourceTable list \<times> int)" where
  "read_named_resource_tables packed offset 0 = Inr ([], offset)"
| "read_named_resource_tables packed offset (Suc n) =
     bind_err (NamedResourceTable_from_packed (slice_from packed offset))
       (\<lambda>table.
          bind_err (read_named_resource_tables packed (offset + (12 + nrt_name_length table)) n)
            (\<lambda>(tables, offset'). Inr (table # tables, offset')))"

text \<open>The choice of the class in the loop over the resource tables.\<close>

definition asset_class_of :: "ResourceTable \<Rightarrow> asset_class" where
  "asset_class_of resource_table =
     (if rt_asset_ID resource_table = 0x95B61279 then Class_ScanTree
      else (case asset_classes (rt_asset_type resource_table) of
              Some c \<Rightarrow> c
            | None \<Rightarrow> Class_UnimplementedResource))"

definition PAK_from_packed ::
  "(asset_class \<Rightarrow> bytes \<Rightarrow> error + external_resource) \<Rightarrow> bytes \<Rightarrow> error + PAK" where
  "PAK_from_packed ext packed =
     (let header = slice_to packed 12 in
      if length header \<noteq> 12 then Inl StructError
      else
        let major_version = be_int (take 2 header);
            minor_version = be_int (take 2 (drop 2 header));
            unused = be_int (take 4 (drop 4 header));
            named_resource_count = be_int (take 4 (drop 8 header))
        in
        bind_err (read_named_resource_tables packed 12 (nat named_resource_count))
          (\<lambda>(named_resource_tables, offset).
             bind_err (unpack_int (slice packed offset (offset + 4)))
               (\<lambda>resource_count.
                  bind_err (read_records ResourceTable_from_packed 20 packed (offset + 4)
                              (nat resource_count))
                    (\<lambda>resource_tables.
                       bind_err
                         (map_err (\<lambda>resource_table.
                             let offset = rt_offset resource_table;
                                 size = rt_size resource_table
                             in class_from_packed ext (asset_class_of resource_table)
                                  (slice packed offset (offset + size)))
                           resource_tables)
                         (\<lambda>resources.
                            Inr \<lparr>pak_major_version = major_version,
                                 pak_minor_version = minor_version,
                                 pak_unused = unused,
                                 pak_named_resource_count = named_resource_count,
                                 pak_named_resource_tables = named_resource_tables,
                                 pak_resource_count = resource_count,
                                 pak_resource_tables = resource_tables,
                                 pak_resources = resources\<rparr>)))))"

definition packed_content_before_resources_size :: "PAK \<Rightarrow> error + int" where
  "packed_content_before_resources_size p =
     bind_err (map_err NamedResourceTable_packed_size (pak_named_resource_tables p))
       (\<lambda>named_resource_tables_sizes.
          bind_err (map_err ResourceTable_packed_size (pak_resource_tables p))
            (\<lambda>resource_tables_sizes.
               Inr (2 + 2 + 4 + 4 + sum_list named_resource_tables_sizes + 4
                    + sum_list resource_tables_sizes)))"

definition packed_padding_before_resources_size :: "PAK \<Rightarrow> error + int" where
  "packed_padding_before_resources_size p =
     bind_err (packed_content_before_resources_size p) (\<lambda>n. Inr ((32 - (n mod 32)) mod 32))"

definition PAK_packed_size :: "PAK \<Rightarrow> error + int" where
  "PAK_packed_size p =
     bind_err (map_err resource_packed_size (pak_resources p))
       (\<lambda>resources_sizes.
          bind_err (packed_content_before_resources_size p)
            (\<lambda>content. bind_err (packed_padding_before_resources_size p)
              (\<lambda>padding. Inr (content + padding + sum_list resources_sizes))))"

definition PAK_packed :: "PAK \<Rightarrow> error + bytes" where
  "PAK_packed p =
     bind_err (pack_u16 (pak_major_version p))
       (\<lambda>major_version. bind_err (pack_u16 (pak_minor_version p))
         (\<lambda>minor_version. bind_err (pack_u32 (pak_unused p))
           (\<lambda>unused. bind_err (pack_u32 (pak_named_resource_count p))
             (\<lambda>named_resource_count.
                bind_err (map_err NamedResourceTable_packed (pak_named_resource_tables p))
                  (\<lambda>named_resource_tables. bind_err (pack_int (pak_resource_count p))
                    (\<lambda>resource_count.
                       bind_err (map_err ResourceTable_packed (pak_resource_tables p))
                         (\<lambda>resource_tables.
                            bind_err (packed_padding_before_resources_size p)
                              (\<lambda>padding.
                                 bind_err
                                   (map_err (\<lambda>resource.
                                       bind_err (resource_packed resource)
                                         (\<lambda>b. Inr (aligned_to_32_bytes b)))
                                     (pak_resources p))
                                   (\<lambda>resources.
                                      Inr (major_version @ minor_version @ unused
                                           @ named_resource_count
                                           @ concat named_resource_tables
                                           @ resource_count
                                           @ concat resource_tables
                                           @ replicate (nat padding) 0x00
                                           @ concat resources))))))))))"

definition get_resource_by_asset_ID :: "PAK \<Rightarrow> int \<Rightarrow> error + resource" where
  "get_resource_by_asset_ID p asset_ID =
     (case asset_ID_to_index_map p asset_ID of
        None \<Rightarrow> Inl KeyError
      | Some index \<Rightarrow> py_index (pak_resources p) (int index))"

definition with_resource_inserted :: "PAK \<Rightarrow> int \<Rightarrow> int \<Rightarrow> resource \<Rightarrow> error + PAK" where
  "with_resource_inserted p index asset_ID new_resource =
     bind_err
       (if index = pak_resource_count p then
          bind_err (py_index (pak_resource_tables p) (- 1))
            (\<lambda>last_table. Inr (rt_offset last_table + rt_size last_table))
        else
          bind_err (py_index (pak_resource_tables p) index)
            (\<lambda>resource_table. Inr (rt_offset resource_table)))
       (\<lambda>new_resource_table_offset.
          bind_err (resource_asset_type new_resource)
            (\<lambda>asset_type. bind_err (resource_packed_size new_resource)
              (\<lambda>packed_size.
                 let new_resource_table =
                       \<lparr>rt_compressed = False, rt_asset_type = asset_type,
                        rt_asset_ID = asset_ID, rt_size = packed_size,
                        rt_offset = new_resource_table_offset\<rparr>
                 in
                 bind_err
                   (map_err (\<lambda>resource_table.
                       bind_err (resource_packed_size new_resource)
                         (\<lambda>n. Inr (resource_table\<lparr>rt_offset := rt_offset resource_table + n\<rparr>)))
                     (slice_from (pak_resource_tables p) index))
                   (\<lambda>shifted.
                      Inr (p\<lparr>pak_resource_count := pak_resource_count p + 1,
                             pak_resource_tables :=
                               slice_to (pak_resource_tables p) index
                               @ [new_resource_table] @ shifted,
                             pak_resources :=
                               slice_to (pak_resources p) index @ [new_resource]
                               @ slice_from (pak_resources p) index\<rparr>)))))"

definition with_resource_appended :: "PAK \<Rightarrow> int \<Rightarrow> resource \<Rightarrow> error + PAK" where
  "with_resource_appended p asset_ID new_resource =
     with_resource_inserted p (pak_resource_count p) asset_ID new_resource"

text \<open>\<open>removed_resource.packed_size\<close> is read in the body of the loop over the later
  tables, so it is not read when there is none.\<close>

definition with_resource_removed :: "PAK \<Rightarrow> int \<Rightarrow> error + PAK" where
  "with_resource_removed p index =
     bind_err (py_index (pak_resources p) index)
       (\<lambda>removed_resource.
          bind_err
            (map_err (\<lambda>resource_table.
                bind_err (resource_packed_size removed_resource)
                  (\<lambda>n. Inr (resource_table\<lparr>rt_offset := rt_offset resource_table - n\<rparr>)))
              (slice_from (pak_resource_tables p) (index + 1)))
            (\<lambda>shifted.
               Inr (p\<lparr>pak_resource_count := pak_resource_count p - 1,
                      pak_resource_tables := slice_to (pak_resource_tables p) index @ shifted,
                      pak_resources :=
                        slice_to (pak_resources p) index
                        @ slice_from (pak_resources p) (index + 1)\<rparr>)))"

text \<open>The source calls \<open>self.with_resource_removed(self, index)\<close>: once the dictionary
  lookup has returned, the bound method receives one positional argument too many and the
  call raises \<open>TypeError\<close> before the body of \<open>with_resource_removed\<close> runs.\<close>

definition with_resource_removed_by_asset_ID :: "PAK \<Rightarrow> int \<Rightarrow> error + PAK" where
  "with_resource_removed_by_asset_ID p asset_ID =
     (case asset_ID_to_index_map p asset_ID of
        None \<Rightarrow> Inl KeyError
      | Some index \<Rightarrow> Inl TypeError)"

definition with_resource_replaced :: "PAK \<Rightarrow> int \<Rightarrow> resource \<Rightarrow> error + PAK" where
  "with_resource_replaced p index new_resource =
     bind_err (py_index (pak_resource_tables p) index)
       (\<lambda>resource_table.
          bind_err (with_resource_removed p index)
            (\<lambda>p'. with_resource_inserted p' index (rt_asset_ID resource_table) new_resource))"

definition with_resource_replaced_by_asset_ID :: "PAK \<Rightarrow> int \<Rightarrow> resource \<Rightarrow> error + PAK" where
  "with_resource_replaced_by_asset_ID p asset_ID new_resource =
     (case asset_ID_to_index_map p asset_ID of
        None \<Rightarrow> Inl KeyError
      | Some index \<Rightarrow>
          bind_err (with_resource_removed p (int index))
            (\<lambda>p'. with_resource_inserted p' (int index) asset_ID new_resource))"

section \<open>Properties and example values\<close>

text \<open>The invariant of section 3 of the specification that the edit operations rely on:
  the resource count, the resource tables and the resources agree in length.\<close>

definition PAK_valid :: "PAK \<Rightarrow> bool" where
  "PAK_valid p \<longleftrightarrow>
     pak_resource_count p = int (length (pak_resource_tables p)) \<and>
     length (pak_resources p) = length (pak_resource_tables p)"

text \<open>A container of three opaque resources of 32 bytes each, laid out as \<open>PAK_packed\<close>
  writes it: a directory of 76 bytes padded to 96, then the resources.\<close>

definition example_resource_tables :: "ResourceTable list" where
  "example_resource_tables =
     [\<lparr>rt_compressed = False, rt_asset_type = ''TXTR'', rt_asset_ID = 1,
       rt_size = 32, rt_offset = 96\<rparr>,
      \<lparr>rt_compressed = False, rt_asset_type = ''TXTR'', rt_asset_ID = 2,
       rt_size = 32, rt_offset = 128\<rparr>,
      \<lparr>rt_compressed = False, rt_asset_type = ''TXTR'', rt_asset_ID = 3,
       rt_size = 32, rt_offset = 160\<rparr>]"

definition example_pak :: PAK where
  "example_pak =
     \<lparr>pak_major_version = 3, pak_minor_version = 5, pak_unused = 0,
      pak_named_resource_count = 0, pak_named_resource_tables = [],
      pak_resource_count = 3,
      pak_resource_tables = example_resource_tables,
      pak_resources = [UnimplementedResource (replicate 32 1),
                       UnimplementedResource (replicate 32 2),
                       UnimplementedResource (replicate 32 3)]\<rparr>"

definition example_pak_bytes :: bytes where
  "example_pak_bytes =
     [0, 3, 0, 5, 0, 0, 0, 0, 0, 0, 0, 0, 0, 0, 0, 3,
      0, 0, 0, 0, 84, 88, 84, 82, 0, 0, 0, 1, 0, 0, 0, 32, 0, 0, 0, 96,
      0, 0, 0, 0, 84, 88, 84, 82, 0, 0, 0, 2, 0, 0, 0, 32, 0, 0, 0, 128,
      0, 0, 0, 0, 84, 88, 84, 82, 0, 0, 0, 3, 0, 0, 0, 32, 0, 0, 0, 160]
     @ replicate 20 0 @ replicate 32 1 @ replicate 32 2 @ replicate 32 3"

definition empty_pak :: PAK where
  "empty_pak =
     \<lparr>pak_major_version = 3, pak_minor_version = 5, pak_unused = 0,
      pak_named_resource_count = 0, pak_named_resource_tables = [],
      pak_resource_count = 0, pak_resource_tables = [], pak_resources = []\<rparr>"

text \<open>A container whose only resource has one byte.\<close>

definition one_byte_pak :: PAK where
  "one_byte_pak =
     \<lparr>pak_major_version = 3, pak_minor_version = 5, pak_unused = 0,
      pak_named_resource_count = 0, pak_named_resource_tables = [],
      pak_resource_count = 1,
      pak_resource_tables =
        [\<lparr>rt_compressed = False, rt_asset_type = ''TXTR'', rt_asset_ID = 1,
          rt_size = 1, rt_offset = 64\<rparr>],
      pak_resources = [UnimplementedResource [7]]\<rparr>"

text \<open>No decoder for the asset classes outside the sources.\<close>

definition no_ext :: "asset_class \<Rightarrow> bytes \<Rightarrow> error + external_resource" where
  "no_ext c b = Inl TypeError"

text \<open>A string container of two languages with one string each, \<open>"Hi"\<close> and
  \<open>"Salut"\<close>, named \<open>"greet"\<close>, with the offsets and sizes of its own layout.\<close>

definition example_strg :: STRG where
  "example_strg =
     \<lparr>strg_magic_number = 0x87654321, strg_version = 0,
      strg_language_count = 2, strg_string_count = 1,
      strg_language_tables =
        [\<lparr>lt_language_ID = ''ENGL'', lt_strings_offset = 0, lt_strings_size = 10\<rparr>,
         \<lparr>lt_language_ID = ''FREN'', lt_strings_offset = 10, lt_strings_size = 16\<rparr>],
      strg_name_table =
        \<lparr>nt_count = 1, nt_size = 14,
         nt_entries = [\<lparr>ne_offset = 8, ne_string_index = 0\<rparr>],
         nt_names = [''greet'']\<rparr>,
      strg_string_tables =
        [\<lparr>st_count = 1, st_offsets = [4], st_strings = [[72, 105]]\<rparr>,
         \<lparr>st_count = 1, st_offsets = [4], st_strings = [[83, 97, 108, 117, 116]]\<rparr>]\<rparr>"

definition hello_table :: STRGStringTable where
  "hello_table = \<lparr>st_count = 1, st_offsets = [4], st_strings = [[72, 101, 108, 108, 111]]\<rparr>"

section \<open>Basic facts\<close>

lemma bind_err_Inr [simp]: "bind_err (Inr x) f = f x"
  by (simp add: bind_err_def)

lemma bind_err_Inl [simp]: "bind_err (Inl e) f = Inl e"
  by (simp add: bind_err_def)

lemma bind_err_eq_Inr: "bind_err m f = Inr y \<longleftrightarrow> (\<exists>x. m = Inr x \<and> f x = Inr y)"
  by (cases m) simp_all

lemma map_err_total: "(\<And>x. x \<in> set xs \<Longrightarrow> f x = Inr (g x)) \<Longrightarrow> map_err f xs = Inr (map g xs)"
  by (induction xs) simp_all

lemma map_err_length: "map_err f xs = Inr ys \<Longrightarrow> length ys = length xs"
  by (induction xs arbitrary: ys) (auto simp: bind_err_eq_Inr)

lemma map_err_nth: "map_err f xs = Inr ys \<Longrightarrow> i < length xs \<Longrightarrow> f (xs ! i) = Inr (ys ! i)"
proof (induction xs arbitrary: ys i)
  case Nil
  then show ?case by simp
next
  case (Cons x xs)
  then show ?case by (cases i) (auto simp: bind_err_eq_Inr)
qed

lemma slice_bound_nonneg: "0 \<le> i \<Longrightarrow> slice_bound xs i = min (nat i) (length xs)"
  by (auto simp: slice_bound_def)

lemma slice_to_nonneg: "0 \<le> i \<Longrightarrow> slice_to xs i = take (nat i) xs"
  by (cases "nat i \<le> length xs") (simp_all add: slice_to_def slice_bound_nonneg min_def)

lemma slice_from_nonneg: "0 \<le> i \<Longrightarrow> slice_from xs i = drop (nat i) xs"
  by (cases "nat i \<le> length xs") (simp_all add: slice_from_def slice_bound_nonneg min_def)

lemma slice_nonneg: "0 \<le> i \<Longrightarrow> 0 \<le> j \<Longrightarrow> slice xs i j = drop (nat i) (take (nat j) xs)"
  by (cases "nat i \<le> length xs"; cases "nat j \<le> length xs")
     (simp_all add: slice_def slice_bound_nonneg min_def)

lemma py_index_nonneg: "0 \<le> i \<Longrightarrow> nat i < length xs \<Longrightarrow> py_index xs i = Inr (xs ! nat i)"
  by (simp add: py_index_def)

lemma py_index_last: "xs \<noteq> [] \<Longrightarrow> py_index xs (- 1) = Inr (last xs)"
  by (cases xs rule: rev_cases) (auto simp: py_index_def nth_append)

lemma py_index_empty: "py_index [] i = Inl IndexError"
  by (simp add: py_index_def)

section \<open>Structural edits of a PAK\<close>

lemma insert_result:
  assumes v: "PAK_valid p" and ne: "pak_resource_tables p \<noteq> []"
    and i: "0 \<le> i" "i \<le> pak_resource_count p"
    and ty: "resource_asset_type r = Inr ty" and sz: "resource_packed_size r = Inr n"
  shows "with_resource_inserted p i asset_ID r =
     Inr (p\<lparr>pak_resource_count := pak_resource_count p + 1,
            pak_resource_tables :=
              take (nat i) (pak_resource_tables p)
              @ [\<lparr>rt_compressed = False, rt_asset_type = ty, rt_asset_ID = asset_ID,
                  rt_size = n,
                  rt_offset = (if i = pak_resource_count p
                     then rt_offset (last (pak_resource_tables p))
                          + rt_size (last (pak_resource_tables p))
                     else rt_offset (pak_resource_tables p ! nat i))\<rparr>]
              @ map (\<lambda>t. t\<lparr>rt_offset := rt_offset t + n\<rparr>)
                  (drop (nat i) (pak_resource_tables p)),
            pak_resources :=
              take (nat i) (pak_resources p) @ [r] @ drop (nat i) (pak_resources p)\<rparr>)"
proof -
  have shifted: "map_err (\<lambda>resource_table.
          bind_err (resource_packed_size r)
            (\<lambda>n. Inr (resource_table\<lparr>rt_offset := rt_offset resource_table + n\<rparr>)))
        (slice_from (pak_resource_tables p) i)
      = Inr (map (\<lambda>t. t\<lparr>rt_offset := rt_offset t + n\<rparr>) (drop (nat i) (pak_resource_tables p)))"
    using i sz by (simp add: slice_from_nonneg map_err_total)
  show ?thesis
  proof (cases "i = pak_resource_count p")
    case True
    then show ?thesis
      using ne i ty sz shifted
      by (simp add: with_resource_inserted_def py_index_last slice_to_nonneg slice_from_nonneg)
  next
    case False
    with i v have "nat i < length (pak_resource_tables p)"
      by (simp add: PAK_valid_def)
    with False show ?thesis
      using i ty sz shifted
      by (simp add: with_resource_inserted_def py_index_nonneg slice_to_nonneg slice_from_nonneg)
  qed
qed

text \<open>
  Claim C10. In a PAK with zero resources, \<open>with_resource_inserted(0, id, r)\<close>, and with it
  \<open>with_resource_appended(id, r)\<close>, raises instead of returning a container with one
  resource: the index equals the resource count, so the offset of the new entry is read
  from the last resource table, and there is none.
\<close>

theorem insert_into_empty_fails:
  assumes "pak_resource_count p = 0" and "pak_resource_tables p = []"
  shows "with_resource_inserted p 0 asset_ID r = Inl IndexError
         \<and> with_resource_appended p asset_ID r = Inl IndexError"
  using assms by (simp add: with_resource_inserted_def with_resource_appended_def py_index_empty)

theorem insert_into_empty_fails_witness:
  "pak_resource_count empty_pak = 0 \<and> pak_resource_tables empty_pak = []
   \<and> with_resource_inserted empty_pak 0 9 (STRG_resource example_strg) = Inl IndexError
   \<and> with_resource_appended empty_pak 9 (STRG_resource example_strg) = Inl IndexError"
proof -
  have c: "pak_resource_count empty_pak = 0" and t: "pak_resource_tables empty_pak = []"
    by (simp_all add: empty_pak_def)
  from insert_into_empty_fails [OF c t, of 9 "STRG_resource example_strg"] c t
  show ?thesis by simp
qed

text \<open>
  Claim C6, as amended. For every valid PAK \<open>p\<close> that has at least one resource, every index
  \<open>i\<close> with \<open>0 \<le> i \<le> resource_count\<close>, every identifier and every resource \<open>r\<close> that has an
  asset type and an encoded size, inserting \<open>r\<close> at \<open>i\<close> succeeds and removing index \<open>i\<close>
  from the result returns \<open>p\<close> itself.
\<close>

theorem insert_then_remove:
  assumes v: "PAK_valid p" and ne: "pak_resource_tables p \<noteq> []"
    and i: "0 \<le> i" "i \<le> pak_resource_count p"
    and ty: "resource_asset_type r = Inr ty" and sz: "resource_packed_size r = Inr n"
  shows "\<exists>p'. with_resource_inserted p i asset_ID r = Inr p' \<and> with_resource_removed p' i = Inr p"
proof -
  let ?ts = "pak_resource_tables p" and ?rs = "pak_resources p"
  have len: "nat i \<le> length ?ts" "nat i \<le> length ?rs"
    using v i by (simp_all add: PAK_valid_def)
  note ins = insert_result[OF v ne i ty sz, of asset_ID]
  define p' where "p' = (p\<lparr>pak_resource_count := pak_resource_count p + 1,
            pak_resource_tables :=
              take (nat i) ?ts
              @ [\<lparr>rt_compressed = False, rt_asset_type = ty, rt_asset_ID = asset_ID,
                  rt_size = n,
                  rt_offset = (if i = pak_resource_count p
                     then rt_offset (last ?ts) + rt_size (last ?ts)
                     else rt_offset (?ts ! nat i))\<rparr>]
              @ map (\<lambda>t. t\<lparr>rt_offset := rt_offset t + n\<rparr>) (drop (nat i) ?ts),
            pak_resources := take (nat i) ?rs @ [r] @ drop (nat i) ?rs\<rparr>)"
  have idx: "py_index (pak_resources p') i = Inr r"
    using i len by (auto simp add: p'_def py_index_def nth_append min_def)
  have sb: "slice_bound (pak_resource_tables p') (i + 1) = Suc (nat i)"
    "slice_bound (pak_resource_tables p') i = nat i"
    "slice_bound (pak_resources p') (i + 1) = Suc (nat i)"
    "slice_bound (pak_resources p') i = nat i"
    using i len by (auto simp add: p'_def slice_bound_nonneg min_def)
  have later: "slice_from (pak_resource_tables p') (i + 1)
      = map (\<lambda>t. t\<lparr>rt_offset := rt_offset t + n\<rparr>) (drop (nat i) ?ts)"
    unfolding slice_from_def sb using len by (simp add: p'_def min_def)
  have unshift: "map_err (\<lambda>resource_table.
                bind_err (resource_packed_size r)
                  (\<lambda>n. Inr (resource_table\<lparr>rt_offset := rt_offset resource_table - n\<rparr>)))
              (slice_from (pak_resource_tables p') (i + 1)) = Inr (drop (nat i) ?ts)"
    unfolding later
    by (simp add: sz o_def map_err_total[where g = "\<lambda>t. t\<lparr>rt_offset := rt_offset t - n\<rparr>"])
  have rs_later: "slice_from (pak_resources p') (i + 1) = drop (nat i) ?rs"
    unfolding slice_from_def sb using len by (simp add: p'_def min_def)
  have before: "slice_to (pak_resource_tables p') i = take (nat i) ?ts"
    "slice_to (pak_resources p') i = take (nat i) ?rs"
    unfolding slice_to_def sb using len by (simp_all add: p'_def min_def)
  have "with_resource_removed p' i = Inr p"
    by (simp add: with_resource_removed_def idx unshift rs_later before) (simp add: p'_def)
  with ins show ?thesis unfolding p'_def by blast
qed

section \<open>The operations at concrete inputs\<close>

lemma example_pak_index_map: "asset_ID_to_index_map example_pak 2 = Some 1"
  by (simp add: asset_ID_to_index_map_def example_pak_def example_resource_tables_def
      enumerate_eq_zip upt_rec)

lemma example_strg_index_map: "language_ID_to_index_map example_strg ''ENGL'' = Some 0"
  by (simp add: language_ID_to_index_map_def example_strg_def enumerate_eq_zip upt_rec)

text \<open>
  Claim C1. The claim asks \<open>with_resource_removed_by_asset_ID(id)\<close> to return what
  \<open>with_resource_removed(index)\<close> returns for the index of \<open>id\<close>. In \<open>example_pak\<close> the
  identifier 2 is at index 1 and removing index 1 succeeds, but removing by identifier
  raises \<open>TypeError\<close>.
\<close>

theorem remove_by_asset_ID_raises:
  "asset_ID_to_index_map example_pak 2 = Some 1
   \<and> with_resource_removed_by_asset_ID example_pak 2 = Inl TypeError
   \<and> with_resource_removed example_pak 1 =
       Inr (example_pak\<lparr>pak_resource_count := 2,
              pak_resource_tables :=
                [example_resource_tables ! 0, (example_resource_tables ! 2)\<lparr>rt_offset := 128\<rparr>],
              pak_resources := [UnimplementedResource (replicate 32 1),
                                UnimplementedResource (replicate 32 3)]\<rparr>)"
proof -
  have "with_resource_removed example_pak 1 =
       Inr (example_pak\<lparr>pak_resource_count := 2,
              pak_resource_tables :=
                [example_resource_tables ! 0, (example_resource_tables ! 2)\<lparr>rt_offset := 128\<rparr>],
              pak_resources := [UnimplementedResource (replicate 32 1),
                                UnimplementedResource (replicate 32 3)]\<rparr>)"
    by code_simp
  then show ?thesis
    by (simp add: example_pak_index_map with_resource_removed_by_asset_ID_def)
qed

text \<open>
  Claim C2. The claim asks every later language entry to get its old \<open>strings_offset\<close> plus
  the size delta. Replacing the table of \<open>ENGL\<close> (size 10) by one of size 16 in
  \<open>example_strg\<close> gives \<open>FREN\<close>, whose offset was 10, the offset 22, its own
  \<open>strings_size\<close> 16 plus the delta 6, and not 16.
\<close>

theorem later_language_offset:
  "STRGStringTable_packed_size hello_table = Inr 16
   \<and> map lt_strings_offset (strg_language_tables example_strg) = [0, 10]
   \<and> map lt_strings_size (strg_language_tables example_strg) = [10, 16]
   \<and> bind_err (with_string_table_replaced example_strg ''ENGL'' hello_table)
        (\<lambda>s'. Inr (strg_language_tables s')) =
      Inr [\<lparr>lt_language_ID = ''ENGL'', lt_strings_offset = 0, lt_strings_size = 16\<rparr>,
           \<lparr>lt_language_ID = ''FREN'', lt_strings_offset = 22, lt_strings_size = 16\<rparr>]"
proof -
  have 1: "STRGStringTable_packed_size hello_table = Inr 16" by code_simp
  have 2: "py_index (strg_language_tables example_strg) 0
       = Inr \<lparr>lt_language_ID = ''ENGL'', lt_strings_offset = 0, lt_strings_size = 10\<rparr>"
    by code_simp
  have 3: "slice_to (strg_language_tables example_strg) 0 = []"
    by code_simp
  have 4: "slice_from (strg_language_tables example_strg) 1
       = [\<lparr>lt_language_ID = ''FREN'', lt_strings_offset = 10, lt_strings_size = 16\<rparr>]"
    by code_simp
  have 5: "map lt_strings_offset (strg_language_tables example_strg) = [0, 10]"
    "map lt_strings_size (strg_language_tables example_strg) = [10, 16]"
    by (simp_all add: example_strg_def)
  show ?thesis
    by (simp add: with_string_table_replaced_def example_strg_index_map 1 2 3 4 5)
qed

text \<open>
  Claim C3. The claim asks \<open>packed_size == len(packed())\<close> of every container. For the PAK
  whose only resource has one byte, \<open>packed_size\<close> is 65 (a directory of 36 bytes, 28 bytes
  of padding, one byte of resource), while \<open>packed()\<close> has 96 bytes: it pads the resource
  to 32 bytes, which \<open>packed_size\<close> does not count.
\<close>

theorem packed_size_differs:
  "PAK_packed_size one_byte_pak = Inr 65
   \<and> PAK_packed one_byte_pak =
       Inr ([0, 3, 0, 5, 0, 0, 0, 0, 0, 0, 0, 0, 0, 0, 0, 1,
             0, 0, 0, 0, 84, 88, 84, 82, 0, 0, 0, 1, 0, 0, 0, 1, 0, 0, 0, 64]
            @ replicate 28 0 @ [7] @ replicate 31 0xFF)
   \<and> length ([0, 3, 0, 5, 0, 0, 0, 0, 0, 0, 0, 0, 0, 0, 0, 1,
             0, 0, 0, 0, 84, 88, 84, 82, 0, 0, 0, 1, 0, 0, 0, 1, 0, 0, 0, 64 :: byte]
            @ replicate 28 0 @ [7] @ replicate 31 0xFF) = 96"
  by code_simp

text \<open>
  Claim C5, as stated, fails: the 16 bytes of padding between the directory of the empty
  PAK and its (empty) payload region are \<open>0x00\<close>, not \<open>0xFF\<close>.
\<close>

theorem header_padding_counterexample:
  "PAK_packed empty_pak =
     Inr ([0, 3, 0, 5, 0, 0, 0, 0, 0, 0, 0, 0, 0, 0, 0, 0] @ replicate 16 0x00)
   \<and> packed_padding_before_resources_size empty_pak = Inr 16"
  by code_simp

text \<open>
  Claim C6, as stated, fails: a valid PAK and an index in range, but the opaque resource
  has no asset type and the insertion raises; and the empty PAK is valid, but inserting
  at its only index 0 raises.
\<close>

theorem insert_then_remove_counterexample:
  "PAK_valid example_pak
   \<and> with_resource_inserted example_pak 1 9 (UnimplementedResource [7]) = Inl AttributeError
   \<and> PAK_valid empty_pak
   \<and> with_resource_inserted empty_pak 0 9 (STRG_resource example_strg) = Inl IndexError"
  by code_simp

theorem insert_then_remove_witness:
  "PAK_valid example_pak \<and> pak_resource_tables example_pak \<noteq> []
   \<and> (0::int) \<le> 1 \<and> 1 \<le> pak_resource_count example_pak
   \<and> resource_asset_type (STRG_resource example_strg) = Inr ''STRG''
   \<and> resource_packed_size (STRG_resource example_strg) = Inr 96
   \<and> (\<exists>p'. with_resource_inserted example_pak 1 9 (STRG_resource example_strg) = Inr p'
          \<and> with_resource_removed p' 1 = Inr example_pak)"
proof -
  have v: "PAK_valid example_pak" by code_simp
  have ne: "pak_resource_tables example_pak \<noteq> []" by code_simp
  have i: "(0::int) \<le> 1" "1 \<le> pak_resource_count example_pak"
    by (simp_all add: example_pak_def)
  have ty: "resource_asset_type (STRG_resource example_strg) = Inr ''STRG''"
    by (simp add: resource_asset_type_def)
  have sz: "resource_packed_size (STRG_resource example_strg) = Inr 96" by code_simp
  from insert_then_remove [OF v ne i ty sz, of 9] v ne i ty sz show ?thesis by blast
qed

text \<open>
  Claim C7. The claim asks every offset, after an edit, to be the size of the padded
  directory plus the padded sizes of the resources before it. \<open>example_pak\<close> is what
  \<open>PAK_from_packed\<close> returns for its own encoding, and its offsets 96, 128, 160 are of
  that form. After removing its last resource the directory with its padding has 64
  bytes, and the two remaining offsets are still 96 and 128.
\<close>

theorem offsets_after_remove:
  "PAK_packed example_pak = Inr example_pak_bytes
   \<and> PAK_from_packed no_ext example_pak_bytes = Inr example_pak
   \<and> map rt_offset (pak_resource_tables example_pak) = [96, 96 + 32, 96 + 32 + 32]
   \<and> bind_err (with_resource_removed example_pak 2)
        (\<lambda>p'. Inr (map rt_offset (pak_resource_tables p'))) = Inr [96, 128]
   \<and> bind_err (with_resource_removed example_pak 2)
        (\<lambda>p'. bind_err (packed_content_before_resources_size p')
           (\<lambda>content. bind_err (packed_padding_before_resources_size p')
              (\<lambda>padding. Inr (content + padding)))) = Inr 64"
  by code_simp

end
